theory Spec2Isabelle
  imports Main
begin

section \<open>The summarize route: \<open>POST /api/summarize\<close>\<close>

subsection \<open>JavaScript values reaching the handler\<close>

text \<open>
  \<open>request.json()\<close> yields whatever \<open>JSON.parse\<close> builds, so the handler may see any
  JSON value, not only an object with a string \<open>content\<close>. A parsed number is an IEEE
  double; the handler observes two things of it only: whether it is zero (the test
  \<open>!content\<close>) and its decimal rendering (the template literal). A number is therefore
  carried as that pair. Strings are byte lists (UTF-8); the handler only tests them for
  emptiness and concatenates them. An object is the list of its members in source order;
  \<open>JSON.parse\<close> lets the last duplicate win.
\<close>

datatype jsnumber = JsNumber (is_zero: bool) (number_text: string)

datatype json =
    JNull
  | JBool bool
  | JNum jsnumber
  | JStr string
  | JArr "json list"
  | JObj "(string \<times> json) list"

text \<open>
  What a \<open>catch\<close> clause can receive: an \<open>Error\<close> instance with its message, or any other
  thrown value (\<open>error instanceof Error\<close> is false for it).
\<close>

datatype thrown = ErrorInstance string | NonError

text \<open>Own property lookup on a parsed object; \<open>None\<close> is \<open>undefined\<close>.\<close>

definition own_property :: "(string \<times> json) list \<Rightarrow> string \<Rightarrow> json option" where
  "own_property members k = map_of (rev members) k"

text \<open>
  The messages of the two TypeErrors below are the engine's; V8's wording is used, and
  no property depends on it.
\<close>

definition destructure_null_message :: string where
  "destructure_null_message =
     ''Cannot destructure property 'content' of '(intermediate value)' as it is null.''"

text \<open>
  \<open>const { content } = value\<close>: \<open>null\<close> cannot be destructured (TypeError); an object
  gives its own member or \<open>undefined\<close>; strings, numbers, booleans and arrays have no
  property of that name, own or inherited.
\<close>

fun destructure_content :: "json \<Rightarrow> thrown + json option" where
  "destructure_content JNull = Inl (ErrorInstance destructure_null_message)"
| "destructure_content (JObj members) = Inr (own_property members ''content'')"
| "destructure_content _ = Inr None"

text \<open>JavaScript truthiness, as tested by \<open>!content\<close>. Arrays and objects are always truthy.\<close>

fun truthy :: "json option \<Rightarrow> bool" where
  "truthy None = False"
| "truthy (Some JNull) = False"
| "truthy (Some (JBool b)) = b"
| "truthy (Some (JNum n)) = (\<not> is_zero n)"
| "truthy (Some (JStr s)) = (s \<noteq> [])"
| "truthy (Some (JArr _)) = True"
| "truthy (Some (JObj _)) = True"

definition to_primitive_message :: string where
  "to_primitive_message = ''Cannot convert object to primitive value''"

text \<open>
  String coercion inside a template literal (\<open>ToString\<close>). A string is itself. An array is
  joined with commas, \<open>null\<close> elements rendering as the empty string. A parsed object has
  no callable member, so one that carries its own \<open>toString\<close> member shadows
  \<open>Object.prototype.toString\<close> with a non-function, \<open>valueOf\<close> gives back no primitive, and
  the coercion throws a TypeError; every other object renders as \<open>[object Object]\<close>.
\<close>

fun to_string :: "json \<Rightarrow> thrown + string"
  and join :: "json list \<Rightarrow> thrown + string" where
  "to_string JNull = Inr ''null''"
| "to_string (JBool b) = Inr (if b then ''true'' else ''false'')"
| "to_string (JNum n) = Inr (number_text n)"
| "to_string (JStr s) = Inr s"
| "to_string (JArr xs) = join xs"
| "to_string (JObj members) =
     (if own_property members ''toString'' \<noteq> None
      then Inl (ErrorInstance to_primitive_message)
      else Inr ''[object Object]'')"
| "join [] = Inr []"
| "join (x # xs) =
     (case (if x = JNull then Inr [] else to_string x) of
        Inl e \<Rightarrow> Inl e
      | Inr s \<Rightarrow>
          (if xs = [] then Inr s
           else (case join xs of Inl e \<Rightarrow> Inl e | Inr t \<Rightarrow> Inr (s @ '','' @ t))))"

subsection \<open>Responses and collaborators\<close>

text \<open>\<open>NextResponse.json(body, { status })\<close>; the status defaults to 200.\<close>

datatype response_body = ErrorBody string | SummaryBody string

record response =
  status :: nat
  body :: response_body

definition json_response :: "response_body \<Rightarrow> nat \<Rightarrow> response" where
  "json_response b st = \<lparr>status = st, body = b\<rparr>"

text \<open>\<open>await request.json()\<close>: a SyntaxError with its message, or the parsed value.\<close>

datatype request_body = InvalidJson string | ParsedJson json

text \<open>
  One use of the provider: \<open>new GoogleGenerativeAI(apiKey)\<close>, \<open>getGenerativeModel\<close> with the
  model name, \<open>generateContent(prompt)\<close>, \<open>result.response\<close> and \<open>response.text()\<close>. The
  provider is outside the repository: it is a parameter that either throws or returns
  the text. The promise is taken to settle; the handler sets no timeout.
\<close>

record provider_call =
  call_key :: string
  call_model :: string
  call_prompt :: string

record env =
  GEMINI_API_KEY :: "string option"
  generateContent :: "provider_call \<Rightarrow> thrown + string"

text \<open>\<open>!apiKey\<close>: the variable is unset or set to the empty string.\<close>

fun configured :: "string option \<Rightarrow> bool" where
  "configured None = False"
| "configured (Some k) = (k \<noteq> [])"

text \<open>The fixed instruction of the prompt (UTF-8), ending in a colon and two line feeds.\<close>

definition instruction :: string where
  "instruction = [
     CHR 0xEB, CHR 0x8B, CHR 0xA4, CHR 0xEC, CHR 0x9D, CHR 0x8C, CHR 0x20, CHR 0xEB,
     CHR 0xA9, CHR 0x94, CHR 0xEB, CHR 0xAA, CHR 0xA8, CHR 0x20, CHR 0xEB, CHR 0x82,
     CHR 0xB4, CHR 0xEC, CHR 0x9A, CHR 0xA9, CHR 0xEC, CHR 0x9D, CHR 0x84, CHR 0x20,
     CHR 0x33, CHR 0xEC, CHR 0xA4, CHR 0x84, CHR 0x20, CHR 0xEC, CHR 0x9D, CHR 0xB4,
     CHR 0xEB, CHR 0x82, CHR 0xB4, CHR 0xEB, CHR 0xA1, CHR 0x9C, CHR 0x20, CHR 0xEA,
     CHR 0xB0, CHR 0x84, CHR 0xEA, CHR 0xB2, CHR 0xB0, CHR 0xED, CHR 0x95, CHR 0x98,
     CHR 0xEA, CHR 0xB2, CHR 0x8C, CHR 0x20, CHR 0xEC, CHR 0x9A, CHR 0x94, CHR 0xEC,
     CHR 0x95, CHR 0xBD, CHR 0xED, CHR 0x95, CHR 0xB4, CHR 0xEC, CHR 0xA4, CHR 0x98,
     CHR 0x3A, CHR 0x0A, CHR 0x0A]"

definition model_name :: string where
  "model_name = ''gemini-2.5-flash''"

subsection \<open>The handler\<close>

text \<open>
  The \<open>try\<close> block, as a value: what it throws or the response it returns, together with
  the provider calls it made, in order. The prompt is the instruction followed by the
  content coerced to a string; a coercion that throws leaves the provider uncalled.
  \<open>console.error\<close> in the \<open>catch\<close> clause only logs and is left out.
\<close>

definition prompt_call :: "string \<Rightarrow> string \<Rightarrow> provider_call" where
  "prompt_call apiKey text =
     \<lparr>call_key = apiKey, call_model = model_name, call_prompt = instruction @ text\<rparr>"

definition summarize_with_key ::
  "env \<Rightarrow> string \<Rightarrow> json \<Rightarrow> (thrown + response) \<times> provider_call list" where
  "summarize_with_key e apiKey content =
     (case to_string content of
        Inl err \<Rightarrow> (Inl err, [])
      | Inr text \<Rightarrow>
          (case generateContent e (prompt_call apiKey text) of
             Inl err \<Rightarrow> (Inl err, [prompt_call apiKey text])
           | Inr summary \<Rightarrow>
               (Inr (json_response (SummaryBody summary) 200), [prompt_call apiKey text])))"

definition POST_try ::
  "env \<Rightarrow> request_body \<Rightarrow> (thrown + response) \<times> provider_call list" where
  "POST_try e request =
     (case request of
        InvalidJson m \<Rightarrow> (Inl (ErrorInstance m), [])
      | ParsedJson v \<Rightarrow>
          (case destructure_content v of
             Inl err \<Rightarrow> (Inl err, [])
           | Inr content \<Rightarrow>
               (if \<not> truthy content
                then (Inr (json_response (ErrorBody ''Content is required'') 400), [])
                else if \<not> configured (GEMINI_API_KEY e)
                then (Inr (json_response (ErrorBody ''GEMINI_API_KEY is not configured'') 500), [])
                else summarize_with_key e (the (GEMINI_API_KEY e)) (the content))))"

text \<open>The \<open>catch\<close> clause.\<close>

fun POST_catch :: "thrown \<Rightarrow> response" where
  "POST_catch (ErrorInstance m) = json_response (ErrorBody m) 500"
| "POST_catch NonError = json_response (ErrorBody ''Failed to generate summary'') 500"

definition POST :: "env \<Rightarrow> request_body \<Rightarrow> response \<times> provider_call list" where
  "POST e request =
     (case POST_try e request of
        (Inl err, calls) \<Rightarrow> (POST_catch err, calls)
      | (Inr r, calls) \<Rightarrow> (r, calls))"

section \<open>The memo detail view: \<open>MemoDetailModal\<close>\<close>

subsection \<open>Props, state and what the component does to the outside\<close>

text \<open>
  \<open>Memo\<close> is imported from \<open>@/types/memo\<close>; the component reads the fields below. The
  callbacks \<open>onClose\<close>, \<open>onEdit\<close> and \<open>onDelete\<close> are collaborators: calling one is recorded
  as an effect, and each is taken to return normally. \<open>onClose\<close> is carried by its identity
  (a number), because \<open>handleKeyDown\<close> is memoised on it and the effect depends on
  \<open>handleKeyDown\<close>.
\<close>

record memo =
  memo_id :: string
  memo_title :: string
  memo_content :: string
  memo_category :: string
  memo_tags :: "string list"
  memo_createdAt :: string
  memo_updatedAt :: string

record props =
  memo :: "memo option"
  isOpen :: bool
  onClose :: nat

datatype effect =
    OnClose nat
  | OnEdit memo
  | OnDelete string
  | Confirm string
  | Alert string
  | ConsoleError
  | Fetch string

text \<open>
  One mounted instance: the two \<open>useState\<close> cells, the props of the last commit (\<open>None\<close>
  before the first), the \<open>keydown\<close> listeners this instance has on \<open>document\<close> (each
  \<open>handleKeyDown\<close> named by the \<open>onClose\<close> it closes over), \<open>document.body.style.overflow\<close>,
  and the bodies of the summarize requests that have been sent and have not settled.
  \<open>summary\<close> is \<open>None\<close> when \<open>setSummary\<close> was given \<open>undefined\<close>. A \<open>useState\<close> setter
  changes the cell at once, but the elements on screen are those of the last commit:
  \<open>committed_summary\<close> and \<open>committed_isSummarizing\<close> are the values of the two cells
  that the last commit rendered.
\<close>

record view =
  summary :: "string option"
  isSummarizing :: bool
  committed :: "props option"
  committed_summary :: "string option"
  committed_isSummarizing :: bool
  listeners :: "nat list"
  overflow :: string
  pending :: "string list"

definition initial_view :: view where
  "initial_view = \<lparr>summary = Some [], isSummarizing = False, committed = None,
                    committed_summary = Some [], committed_isSummarizing = False,
                    listeners = [], overflow = [], pending = []\<rparr>"

subsection \<open>Key and click handlers\<close>

definition handleKeyDown :: "nat \<Rightarrow> string \<Rightarrow> effect list" where
  "handleKeyDown onClose_id key = (if key = ''Escape'' then [OnClose onClose_id] else [])"

text \<open>A mouse event as the backdrop's \<open>onClick\<close> sees it; elements are named by numbers.\<close>

record mouse_event =
  target :: nat
  currentTarget :: nat

definition handleBackdropClick :: "props \<Rightarrow> mouse_event \<Rightarrow> effect list" where
  "handleBackdropClick p ev =
     (if target ev = currentTarget ev then [OnClose (onClose p)] else [])"

text \<open>The question of \<open>window.confirm\<close> (UTF-8); the user's answer is an input.\<close>

definition confirm_question :: string where
  "confirm_question = [
     CHR 0xEC, CHR 0xA0, CHR 0x95, CHR 0xEB, CHR 0xA7, CHR 0x90, CHR 0xEB, CHR 0xA1,
     CHR 0x9C, CHR 0x20, CHR 0xEC, CHR 0x9D, CHR 0xB4, CHR 0x20, CHR 0xEB, CHR 0xA9,
     CHR 0x94, CHR 0xEB, CHR 0xAA, CHR 0xA8, CHR 0xEB, CHR 0xA5, CHR 0xBC, CHR 0x20,
     CHR 0xEC, CHR 0x82, CHR 0xAD, CHR 0xEC, CHR 0xA0, CHR 0x9C, CHR 0xED, CHR 0x95,
     CHR 0x98, CHR 0xEC, CHR 0x8B, CHR 0x9C, CHR 0xEA, CHR 0xB2, CHR 0xA0, CHR 0xEC,
     CHR 0x8A, CHR 0xB5, CHR 0xEB, CHR 0x8B, CHR 0x88, CHR 0xEA, CHR 0xB9, CHR 0x8C,
     CHR 0x3F]"

text \<open>\<open>memo && window.confirm(...)\<close>: without a memo the dialog is not even shown.\<close>

definition handleDelete :: "props \<Rightarrow> bool \<Rightarrow> effect list" where
  "handleDelete p answer =
     (case memo p of
        None \<Rightarrow> []
      | Some m \<Rightarrow>
          (if answer
           then [Confirm confirm_question, OnDelete (memo_id m), OnClose (onClose p)]
           else [Confirm confirm_question]))"

definition handleEdit :: "props \<Rightarrow> effect list" where
  "handleEdit p = (case memo p of None \<Rightarrow> [] | Some m \<Rightarrow> [OnEdit m, OnClose (onClose p)])"

subsection \<open>The effect\<close>

text \<open>
  \<open>useEffect(..., [isOpen, handleKeyDown])\<close> runs after the first commit and after every
  commit in which \<open>isOpen\<close> or the identity of \<open>handleKeyDown\<close> (that of \<open>onClose\<close>) differs
  from the previous commit. The cleanup of the previous run comes first.
\<close>

definition deps_changed :: "props option \<Rightarrow> props \<Rightarrow> bool" where
  "deps_changed prev p =
     (case prev of
        None \<Rightarrow> True
      | Some q \<Rightarrow> isOpen q \<noteq> isOpen p \<or> onClose q \<noteq> onClose p)"

definition cleanup :: "props option \<Rightarrow> view \<Rightarrow> view" where
  "cleanup prev v =
     (case prev of
        None \<Rightarrow> v
      | Some q \<Rightarrow> v\<lparr>listeners := removeAll (onClose q) (listeners v), overflow := ''unset''\<rparr>)"

definition effect_body :: "props \<Rightarrow> view \<Rightarrow> view" where
  "effect_body p v =
     (if isOpen p
      then v\<lparr>listeners := (if onClose p \<in> set (listeners v) then listeners v
                            else listeners v @ [onClose p]),
             overflow := ''hidden'',
             summary := Some []\<rparr>
      else v)"

text \<open>A commit puts the current values of the two cells on screen.\<close>

definition commit :: "view \<Rightarrow> view" where
  "commit v = v\<lparr>committed_summary := summary v, committed_isSummarizing := isSummarizing v\<rparr>"

text \<open>
  A commit of new props, with the effect flushed and the re-render that its
  \<open>setSummary\<close> causes committed.
\<close>

definition render :: "props \<Rightarrow> view \<Rightarrow> view" where
  "render p v =
     commit
       (if deps_changed (committed v) p
        then (effect_body p (cleanup (committed v) v))\<lparr>committed := Some p\<rparr>
        else v\<lparr>committed := Some p\<rparr>)"

text \<open>A \<open>keydown\<close> on \<open>document\<close> reaches every registered listener.\<close>

definition dispatch_keydown :: "view \<Rightarrow> string \<Rightarrow> effect list" where
  "dispatch_keydown v key = concat (map (\<lambda>k. handleKeyDown k key) (listeners v))"

subsection \<open>Summarizing\<close>

definition alert_failed :: string where
  "alert_failed = [
     CHR 0xEC, CHR 0x9A, CHR 0x94, CHR 0xEC, CHR 0x95, CHR 0xBD, CHR 0x20, CHR 0xEC,
     CHR 0x83, CHR 0x9D, CHR 0xEC, CHR 0x84, CHR 0xB1, CHR 0xEC, CHR 0x97, CHR 0x90,
     CHR 0x20, CHR 0xEC, CHR 0x8B, CHR 0xA4, CHR 0xED, CHR 0x8C, CHR 0xA8, CHR 0xED,
     CHR 0x96, CHR 0x88, CHR 0xEC, CHR 0x8A, CHR 0xB5, CHR 0xEB, CHR 0x8B, CHR 0x88,
     CHR 0xEB, CHR 0x8B, CHR 0xA4, CHR 0x3A, CHR 0x20]"

definition alert_request_error :: string where
  "alert_request_error = [
     CHR 0xEC, CHR 0x9A, CHR 0x94, CHR 0xEC, CHR 0x95, CHR 0xBD, CHR 0x20, CHR 0xEC,
     CHR 0x9A, CHR 0x94, CHR 0xEC, CHR 0xB2, CHR 0xAD, CHR 0x20, CHR 0xEC, CHR 0xA4,
     CHR 0x91, CHR 0x20, CHR 0xEC, CHR 0x98, CHR 0xA4, CHR 0xEB, CHR 0xA5, CHR 0x98,
     CHR 0xEA, CHR 0xB0, CHR 0x80, CHR 0x20, CHR 0xEB, CHR 0xB0, CHR 0x9C, CHR 0xEC,
     CHR 0x83, CHR 0x9D, CHR 0xED, CHR 0x96, CHR 0x88, CHR 0xEC, CHR 0x8A, CHR 0xB5,
     CHR 0xEB, CHR 0x8B, CHR 0x88, CHR 0xEB, CHR 0x8B, CHR 0xA4, CHR 0x2E]"

text \<open>
  \<open>handleSummarize\<close> up to its first \<open>await\<close>: the guard, \<open>setIsSummarizing(true)\<close> and the
  \<open>fetch\<close>. The memo is the one of the commit whose button was clicked. The handler does
  not read \<open>isSummarizing\<close>.
\<close>

definition handleSummarize :: "props \<Rightarrow> view \<Rightarrow> view \<times> effect list" where
  "handleSummarize p v =
     (case memo p of
        None \<Rightarrow> (v, [])
      | Some m \<Rightarrow>
          (if memo_content m = [] then (v, [])
           else (v\<lparr>isSummarizing := True, pending := pending v @ [memo_content m]\<rparr>,
                 [Fetch (memo_content m)])))"

text \<open>
  How a request settles: \<open>fetch\<close> or \<open>response.json()\<close> rejects (or the data cannot be
  read), or a reply arrives with \<open>response.ok\<close>, \<open>data.summary\<close> and \<open>data.error\<close>; the two
  fields are a string or absent.
\<close>

datatype reply = Threw | Replied bool "string option" "string option"

fun error_or_unknown :: "string option \<Rightarrow> string" where
  "error_or_unknown None = ''Unknown error''"
| "error_or_unknown (Some s) = (if s = [] then ''Unknown error'' else s)"

text \<open>The rest of \<open>handleSummarize\<close>, with its \<open>catch\<close> and \<open>finally\<close>, for the oldest request.\<close>

fun settle :: "reply \<Rightarrow> view \<Rightarrow> view \<times> effect list" where
  "settle Threw v =
     (v\<lparr>isSummarizing := False, pending := tl (pending v)\<rparr>,
      [ConsoleError, Alert alert_request_error])"
| "settle (Replied ok data_summary data_error) v =
     (if ok
      then (v\<lparr>summary := data_summary, isSummarizing := False, pending := tl (pending v)\<rparr>, [])
      else (v\<lparr>isSummarizing := False, pending := tl (pending v)\<rparr>,
            [Alert (alert_failed @ error_or_unknown data_error)]))"

subsection \<open>What is on screen, and the events of an instance\<close>

text \<open>\<open>if (!isOpen || !memo) return null\<close>.\<close>

definition rendered :: "view \<Rightarrow> bool" where
  "rendered v = (case committed v of None \<Rightarrow> False | Some p \<Rightarrow> isOpen p \<and> memo p \<noteq> None)"

definition summary_shown :: "view \<Rightarrow> bool" where
  "summary_shown v = (case summary v of None \<Rightarrow> False | Some s \<Rightarrow> s \<noteq> [])"

text \<open>
  The summarize button exists while no summary is shown (\<open>!summary\<close>) and carries
  \<open>disabled={isSummarizing}\<close>; a disabled button delivers no click. Both are read from
  the elements on screen, that is, from the values of the last commit: what a handler
  has set since then is not on screen yet.
\<close>

definition summarize_clickable :: "view \<Rightarrow> bool" where
  "summarize_clickable v =
     (rendered v
      \<and> (case committed_summary v of None \<Rightarrow> True | Some s \<Rightarrow> s = [])
      \<and> \<not> committed_isSummarizing v)"

text \<open>
  The events of one instance. JavaScript runs one handler at a time, so each event is
  one step. \<open>Commit\<close> is React committing the re-render that state updates have
  scheduled; \<open>Render\<close> is a commit with new props from the parent. Nothing orders a
  \<open>Commit\<close> before the next click: two clicks may be delivered with no commit between
  them. A click on an element that is not on screen or is disabled, and a settlement
  with no request in flight, change nothing.
\<close>

datatype event =
    Render props
  | Commit
  | KeyDown string
  | ClickBackdrop
  | ClickContent
  | ClickClose
  | ClickEdit
  | ClickDelete bool
  | ClickSummarize
  | Settle reply

definition backdrop :: nat where
  "backdrop = 0"

definition content_area :: nat where
  "content_area = 1"

fun step :: "event \<Rightarrow> view \<Rightarrow> view \<times> effect list" where
  "step (Render p) v = (render p v, [])"
| "step Commit v = (commit v, [])"
| "step (KeyDown key) v = (v, dispatch_keydown v key)"
| "step ClickBackdrop v =
     (v, if rendered v
         then handleBackdropClick (the (committed v)) \<lparr>target = backdrop, currentTarget = backdrop\<rparr>
         else [])"
| "step ClickContent v =
     (v, if rendered v
         then handleBackdropClick (the (committed v)) \<lparr>target = content_area, currentTarget = backdrop\<rparr>
         else [])"
| "step ClickClose v = (v, if rendered v then [OnClose (onClose (the (committed v)))] else [])"
| "step ClickEdit v = (v, if rendered v then handleEdit (the (committed v)) else [])"
| "step (ClickDelete answer) v =
     (v, if rendered v then handleDelete (the (committed v)) answer else [])"
| "step ClickSummarize v =
     (if summarize_clickable v then handleSummarize (the (committed v)) v else (v, []))"
| "step (Settle r) v = (if pending v = [] then (v, []) else settle r v)"

fun run :: "event list \<Rightarrow> view \<Rightarrow> view" where
  "run [] v = v"
| "run (ev # evs) v = run evs (fst (step ev v))"

subsection \<open>Observations on a view\<close>

definition view_open :: "view \<Rightarrow> bool" where
  "view_open v = (case committed v of None \<Rightarrow> False | Some p \<Rightarrow> isOpen p)"

text \<open>The listener on \<open>document\<close> is the current \<open>handleKeyDown\<close> while open, and none otherwise.\<close>

definition listeners_match :: "view \<Rightarrow> bool" where
  "listeners_match v =
     (listeners v =
        (case committed v of None \<Rightarrow> [] | Some p \<Rightarrow> if isOpen p then [onClose p] else []))"

text \<open>No request is in flight, or exactly one is and the flag is set.\<close>

definition single_flight :: "view \<Rightarrow> bool" where
  "single_flight v = (pending v = [] \<or> (isSummarizing v \<and> length (pending v) = 1))"

text \<open>The flag is clear, or the elements on screen already carry it.\<close>

definition flag_on_screen :: "view \<Rightarrow> bool" where
  "flag_on_screen v = (\<not> isSummarizing v \<or> committed_isSummarizing v)"

text \<open>
  A sequence of events in which a commit (\<open>Commit\<close> or \<open>Render\<close>) comes between any two
  clicks on the summarize button. The flag says whether a click has been delivered
  since the last commit.
\<close>

fun commits_between_clicks :: "bool \<Rightarrow> event list \<Rightarrow> bool" where
  "commits_between_clicks clicked [] = True"
| "commits_between_clicks clicked (ClickSummarize # evs) =
     (\<not> clicked \<and> commits_between_clicks True evs)"
| "commits_between_clicks clicked (Commit # evs) = commits_between_clicks False evs"
| "commits_between_clicks clicked (Render p # evs) = commits_between_clicks False evs"
| "commits_between_clicks clicked (ev # evs) = commits_between_clicks clicked evs"

section \<open>Concrete collaborators and memos\<close>

definition summarizing_provider :: "provider_call \<Rightarrow> thrown + string" where
  "summarizing_provider c = Inr ''A short summary.''"

definition silent_provider :: "provider_call \<Rightarrow> thrown + string" where
  "silent_provider c = Inr []"

definition failing_provider :: "provider_call \<Rightarrow> thrown + string" where
  "failing_provider c = Inl (ErrorInstance ''quota exceeded'')"

definition groceries :: memo where
  "groceries =
     \<lparr>memo_id = ''m1'', memo_title = ''Groceries'', memo_content = ''milk, eggs'',
      memo_category = ''personal'', memo_tags = [''home''],
      memo_createdAt = ''2026-02-05T09:00:00Z'', memo_updatedAt = ''2026-02-05T09:00:00Z''\<rparr>"

definition untitled :: memo where
  "untitled =
     \<lparr>memo_id = ''m2'', memo_title = ''Untitled'', memo_content = [],
      memo_category = ''other'', memo_tags = [],
      memo_createdAt = ''2026-02-05T10:00:00Z'', memo_updatedAt = ''2026-02-05T10:00:00Z''\<rparr>"

section \<open>Properties of the summarize route\<close>

subsection \<open>The handler by cases\<close>

lemma destructure_content_throws:
  "(destructure_content v = Inl err) =
     (v = JNull \<and> err = ErrorInstance destructure_null_message)"
  by (cases v) auto

lemma POST_parsed:
  "destructure_content v = Inr content \<Longrightarrow>
   POST e (ParsedJson v) =
     (if \<not> truthy content
      then (json_response (ErrorBody ''Content is required'') 400, [])
      else if \<not> configured (GEMINI_API_KEY e)
      then (json_response (ErrorBody ''GEMINI_API_KEY is not configured'') 500, [])
      else (case summarize_with_key e (the (GEMINI_API_KEY e)) (the content) of
              (Inl err, calls) \<Rightarrow> (POST_catch err, calls)
            | (Inr r, calls) \<Rightarrow> (r, calls)))"
  by (simp add: POST_def POST_try_def)

lemma POST_coerced:
  assumes "destructure_content v = Inr (Some c)" and "truthy (Some c)"
    and "GEMINI_API_KEY e = Some key" and "key \<noteq> []"
    and "to_string c = Inr text"
  shows "POST e (ParsedJson v) =
     (case generateContent e (prompt_call key text) of
        Inl err \<Rightarrow> POST_catch err
      | Inr t \<Rightarrow> json_response (SummaryBody t) 200,
      [prompt_call key text])"
  using assms by (simp add: POST_parsed summarize_with_key_def split: sum.splits)

lemma status_POST_catch: "status (POST_catch err) = 500"
  by (cases err) (simp_all add: json_response_def)

lemma body_POST_catch: "\<exists>m. body (POST_catch err) = ErrorBody m"
  by (cases err) (simp_all add: json_response_def)

subsection \<open>Missing content\<close>

text \<open>
  C1, as amended. When the parsed body is not \<open>null\<close> (so the destructuring yields a
  value or \<open>undefined\<close>) and its \<open>content\<close> is absent or falsy, the handler answers 400
  with the error \<open>Content is required\<close> and calls no provider, whatever the credential
  and the provider are: the check comes before the credential check.
\<close>

theorem missing_content_is_400:
  assumes "destructure_content v = Inr content" and "\<not> truthy content"
  shows "POST e (ParsedJson v) = (json_response (ErrorBody ''Content is required'') 400, [])"
  using assms by (simp add: POST_parsed)

text \<open>An object without a \<open>content\<close> member, with the credential unset.\<close>

theorem missing_content_is_400_witness:
  "destructure_content (JObj [(''title'', JStr ''x'')]) = Inr None \<and> \<not> truthy None
   \<and> POST \<lparr>GEMINI_API_KEY = None, generateContent = summarizing_provider\<rparr>
        (ParsedJson (JObj [(''title'', JStr ''x'')]))
      = (json_response (ErrorBody ''Content is required'') 400, [])"
proof -
  have d: "destructure_content (JObj [(''title'', JStr ''x'')]) = Inr None"
    by (simp add: own_property_def)
  have t: "\<not> truthy None" by simp
  from missing_content_is_400 [OF d t] d t show ?thesis by blast
qed

text \<open>
  The body \<open>null\<close> is valid JSON and has no content, yet \<open>const { content } = null\<close>
  throws, and the \<open>catch\<close> clause answers 500.
\<close>

theorem null_body_is_500:
  "status (fst (POST \<lparr>GEMINI_API_KEY = None, generateContent = summarizing_provider\<rparr>
                  (ParsedJson JNull))) = 500"
  by (simp add: POST_def POST_try_def json_response_def)

subsection \<open>Server errors\<close>

text \<open>
  C2, as amended. When content is present (truthy) and its coercion to a string succeeds,
  as it always does for a string, the status is 500 exactly when the credential is
  unconfigured or the provider call fails, and the body is then an error body. A
  provider failure that is an \<open>Error\<close> gives its message as the error string; any other
  thrown value gives the fixed text \<open>Failed to generate summary\<close>.
\<close>

theorem server_error_cases:
  assumes "destructure_content v = Inr (Some c)" and "truthy (Some c)"
    and "to_string c = Inr text"
  shows "(status (fst (POST e (ParsedJson v))) = 500) =
           (\<not> configured (GEMINI_API_KEY e) \<or>
            (\<exists>key err. GEMINI_API_KEY e = Some key \<and>
               generateContent e (prompt_call key text) = Inl err))
         \<and> (status (fst (POST e (ParsedJson v))) = 500 \<longrightarrow>
              (\<exists>m. body (fst (POST e (ParsedJson v))) = ErrorBody m))
         \<and> (\<forall>key m. GEMINI_API_KEY e = Some key \<and> key \<noteq> [] \<and>
               generateContent e (prompt_call key text) = Inl (ErrorInstance m)
               \<longrightarrow> fst (POST e (ParsedJson v)) = json_response (ErrorBody m) 500)
         \<and> (\<forall>key. GEMINI_API_KEY e = Some key \<and> key \<noteq> [] \<and>
               generateContent e (prompt_call key text) = Inl NonError
               \<longrightarrow> fst (POST e (ParsedJson v)) =
                     json_response (ErrorBody ''Failed to generate summary'') 500)"
proof (cases "configured (GEMINI_API_KEY e)")
  case False
  with assms show ?thesis
    by (cases "GEMINI_API_KEY e") (auto simp add: POST_parsed json_response_def)
next
  case True
  then obtain key where k: "GEMINI_API_KEY e = Some key" "key \<noteq> []"
    by (cases "GEMINI_API_KEY e") auto
  show ?thesis
    using True k POST_coerced [OF assms(1) assms(2) k assms(3)]
    by (cases "generateContent e (prompt_call key text)")
       (auto simp add: status_POST_catch body_POST_catch json_response_def)
qed

text \<open>A string content, a configured credential and a provider that fails with an \<open>Error\<close>.\<close>

theorem server_error_cases_witness:
  "destructure_content (JObj [(''content'', JStr ''note'')]) = Inr (Some (JStr ''note''))
   \<and> truthy (Some (JStr ''note'')) \<and> to_string (JStr ''note'') = Inr ''note''
   \<and> status (fst (POST \<lparr>GEMINI_API_KEY = Some ''k'', generateContent = failing_provider\<rparr>
                    (ParsedJson (JObj [(''content'', JStr ''note'')])))) = 500
   \<and> fst (POST \<lparr>GEMINI_API_KEY = Some ''k'', generateContent = failing_provider\<rparr>
            (ParsedJson (JObj [(''content'', JStr ''note'')])))
       = json_response (ErrorBody ''quota exceeded'') 500"
proof -
  have d: "destructure_content (JObj [(''content'', JStr ''note'')]) = Inr (Some (JStr ''note''))"
    by (simp add: own_property_def)
  have t: "truthy (Some (JStr ''note''))" by simp
  have s: "to_string (JStr ''note'') = Inr ''note''" by simp
  from server_error_cases [OF d t s,
      of "\<lparr>GEMINI_API_KEY = Some ''k'', generateContent = failing_provider\<rparr>"]
  show ?thesis using d t s by (simp add: failing_provider_def json_response_def)
qed

text \<open>
  The body \<open>{"content": {"toString": true}}\<close>: content is present, the credential is
  configured and the provider would answer every call, yet the template literal throws
  a TypeError, no call is made and the \<open>catch\<close> clause answers 500.
\<close>

theorem uncoercible_content_is_500:
  "POST \<lparr>GEMINI_API_KEY = Some ''k'', generateContent = summarizing_provider\<rparr>
     (ParsedJson (JObj [(''content'', JObj [(''toString'', JBool True)])]))
   = (json_response (ErrorBody to_primitive_message) 500, [])"
  by (simp add: POST_def POST_try_def summarize_with_key_def own_property_def)

subsection \<open>The successful path\<close>

text \<open>
  C3. With content present, the credential configured and the provider call successful,
  the handler makes exactly one provider call, whose prompt is the fixed instruction
  followed by the user text (the content as the template literal renders it; a string
  content renders as itself), and answers 200 with the provider's text, unchanged, as
  \<open>summary\<close>.
\<close>

theorem summary_is_provider_text:
  assumes "destructure_content v = Inr (Some c)" and "truthy (Some c)"
    and "GEMINI_API_KEY e = Some key" and "key \<noteq> []"
    and "to_string c = Inr text"
    and "generateContent e (prompt_call key text) = Inr t"
  shows "POST e (ParsedJson v) = (json_response (SummaryBody t) 200, [prompt_call key text])
         \<and> call_prompt (prompt_call key text) = instruction @ text
         \<and> (\<forall>s. c = JStr s \<longrightarrow> text = s)"
  using POST_coerced [OF assms(1-5)] assms(5,6) by (auto simp add: prompt_call_def)

theorem summary_is_provider_text_witness:
  "POST \<lparr>GEMINI_API_KEY = Some ''k'', generateContent = summarizing_provider\<rparr>
     (ParsedJson (JObj [(''content'', JStr ''note'')]))
   = (json_response (SummaryBody ''A short summary.'') 200,
      [\<lparr>call_key = ''k'', call_model = ''gemini-2.5-flash'',
        call_prompt = instruction @ ''note''\<rparr>])"
proof -
  have d: "destructure_content (JObj [(''content'', JStr ''note'')]) = Inr (Some (JStr ''note''))"
    by (simp add: own_property_def)
  have t: "truthy (Some (JStr ''note''))" by simp
  have s: "to_string (JStr ''note'') = Inr ''note''" by simp
  have k: "GEMINI_API_KEY \<lparr>GEMINI_API_KEY = Some ''k'',
             generateContent = summarizing_provider\<rparr> = Some ''k''"
    by simp
  have n: "''k'' \<noteq> []" by simp
  have g: "generateContent \<lparr>GEMINI_API_KEY = Some ''k'',
             generateContent = summarizing_provider\<rparr> (prompt_call ''k'' ''note'')
           = Inr ''A short summary.''"
    by (simp add: summarizing_provider_def)
  from summary_is_provider_text [OF d t k n s g] show ?thesis
    by (simp add: prompt_call_def model_name_def)
qed

text \<open>
  C4, as amended. On the successful path the summary returned is the provider's text,
  unchanged, so it is non-empty exactly when the provider's text is non-empty; the
  handler does not test it.
\<close>

theorem summary_empty_iff_provider_text_empty:
  assumes "destructure_content v = Inr (Some c)" and "truthy (Some c)"
    and "GEMINI_API_KEY e = Some key" and "key \<noteq> []"
    and "to_string c = Inr text"
    and "generateContent e (prompt_call key text) = Inr t"
  shows "fst (POST e (ParsedJson v)) = \<lparr>status = 200, body = SummaryBody t\<rparr>
         \<and> (\<exists>s. body (fst (POST e (ParsedJson v))) = SummaryBody s \<and> s = t
                \<and> (s \<noteq> []) = (t \<noteq> []))"
  using POST_coerced [OF assms(1-5)] assms(6) by (simp add: json_response_def)

theorem summary_empty_iff_provider_text_empty_witness:
  "fst (POST \<lparr>GEMINI_API_KEY = Some ''k'', generateContent = summarizing_provider\<rparr>
          (ParsedJson (JObj [(''content'', JStr ''note'')])))
     = \<lparr>status = 200, body = SummaryBody ''A short summary.''\<rparr>
   \<and> ''A short summary.'' \<noteq> []"
proof -
  have d: "destructure_content (JObj [(''content'', JStr ''note'')]) = Inr (Some (JStr ''note''))"
    by (simp add: own_property_def)
  have t: "truthy (Some (JStr ''note''))" by simp
  have s: "to_string (JStr ''note'') = Inr ''note''" by simp
  have k: "GEMINI_API_KEY \<lparr>GEMINI_API_KEY = Some ''k'',
             generateContent = summarizing_provider\<rparr> = Some ''k''"
    by simp
  have n: "''k'' \<noteq> []" by simp
  have g: "generateContent \<lparr>GEMINI_API_KEY = Some ''k'',
             generateContent = summarizing_provider\<rparr> (prompt_call ''k'' ''note'')
           = Inr ''A short summary.''"
    by (simp add: summarizing_provider_def)
  from summary_empty_iff_provider_text_empty [OF d t k n s g] show ?thesis
    by simp
qed

text \<open>
  Content present, credential configured, and a provider that succeeds with the empty
  text: the summary returned is empty.
\<close>

theorem empty_summary_returned:
  "fst (POST \<lparr>GEMINI_API_KEY = Some ''k'', generateContent = silent_provider\<rparr>
          (ParsedJson (JObj [(''content'', JStr ''note'')])))
   = \<lparr>status = 200, body = SummaryBody []\<rparr>"
  by (simp add: POST_def POST_try_def summarize_with_key_def own_property_def
      silent_provider_def json_response_def)

subsection \<open>Totality\<close>

text \<open>
  C9. For every request and every environment the handler returns a response whose
  status is 200, 400 or 500: whatever the \<open>try\<close> block throws is turned into a response
  by the \<open>catch\<close> clause. Status 200 goes with a summary body and the others with an error
  body. A body that is not valid JSON is answered with status 500 and the parse error's
  message, without a provider call.
\<close>

theorem POST_total:
  "status (fst (POST e request)) \<in> {200, 400, 500}
   \<and> ((status (fst (POST e request)) = 200)
        = (\<exists>t. body (fst (POST e request)) = SummaryBody t))
   \<and> POST e (InvalidJson m) = (json_response (ErrorBody m) 500, [])"
proof -
  have inv: "POST e (InvalidJson m) = (json_response (ErrorBody m) 500, [])"
    by (simp add: POST_def POST_try_def)
  have "status (fst (POST e request)) \<in> {200, 400, 500}
    \<and> ((status (fst (POST e request)) = 200)
         = (\<exists>t. body (fst (POST e request)) = SummaryBody t))"
  proof (cases request)
    case (InvalidJson m')
    then show ?thesis by (simp add: POST_def POST_try_def json_response_def)
  next
    case (ParsedJson v)
    show ?thesis
    proof (cases "destructure_content v")
      case (Inl err)
      with ParsedJson show ?thesis
        using body_POST_catch [of err]
        by (auto simp add: POST_def POST_try_def status_POST_catch)
    next
      case (Inr content)
      show ?thesis
      proof (cases "truthy content \<and> configured (GEMINI_API_KEY e)")
        case False
        with ParsedJson Inr show ?thesis
          by (auto simp add: POST_parsed json_response_def)
      next
        case True
        then obtain c key
          where c: "content = Some c" and k: "GEMINI_API_KEY e = Some key" "key \<noteq> []"
          by (cases content; cases "GEMINI_API_KEY e") auto
        show ?thesis
        proof (cases "to_string c")
          case (Inl err)
          with ParsedJson Inr True c k show ?thesis
            using body_POST_catch [of err]
            by (auto simp add: POST_parsed summarize_with_key_def status_POST_catch)
        next
          case (Inr str)
          from \<open>destructure_content v = Inr content\<close> c True
          have a: "destructure_content v = Inr (Some c)" "truthy (Some c)" by simp_all
          show ?thesis
          proof (cases "generateContent e (prompt_call key str)")
            case (Inl err)
            then show ?thesis
              using POST_coerced [OF a k Inr] ParsedJson body_POST_catch [of err]
              by (auto simp add: status_POST_catch)
          next
            case (Inr t)
            then show ?thesis
              using POST_coerced [OF a k \<open>to_string c = Inr str\<close>] ParsedJson
              by (simp add: json_response_def)
          qed
        qed
      qed
    qed
  qed
  with inv show ?thesis by blast
qed

section \<open>Properties of the memo detail view\<close>

subsection \<open>Invariants of an instance\<close>

lemma listeners_match_render: "listeners_match v \<Longrightarrow> listeners_match (render p v)"
  by (auto simp add: listeners_match_def render_def commit_def cleanup_def effect_body_def
      deps_changed_def split: option.splits if_splits)

lemma committed_settle: "committed (fst (settle r v)) = committed v"
  by (cases r) simp_all

lemma listeners_settle: "listeners (fst (settle r v)) = listeners v"
  by (cases r) simp_all

lemma listeners_match_step: "listeners_match v \<Longrightarrow> listeners_match (fst (step ev v))"
proof (cases ev)
  case (Render p)
  assume "listeners_match v"
  with Render show ?thesis by (simp add: listeners_match_render)
next
  case Commit
  assume "listeners_match v"
  with Commit show ?thesis by (simp add: listeners_match_def commit_def)
next
  case ClickSummarize
  assume "listeners_match v"
  with ClickSummarize show ?thesis
    by (auto simp add: listeners_match_def handleSummarize_def split: option.splits)
next
  case (Settle r)
  assume "listeners_match v"
  with Settle show ?thesis
    by (simp add: listeners_match_def committed_settle listeners_settle)
qed simp_all

lemma listeners_match_run: "listeners_match v \<Longrightarrow> listeners_match (run evs v)"
  by (induction evs arbitrary: v) (simp_all add: listeners_match_step)

lemma listeners_match_initial: "listeners_match initial_view"
  by (simp add: listeners_match_def initial_view_def)

lemma render_keeps_requests:
  "pending (render p v) = pending v \<and> isSummarizing (render p v) = isSummarizing v
   \<and> committed_isSummarizing (render p v) = isSummarizing v"
  by (simp add: render_def commit_def effect_body_def cleanup_def split: option.splits)

lemma settle_clears:
  "pending (fst (settle r v)) = tl (pending v) \<and> \<not> isSummarizing (fst (settle r v))"
  by (cases r) simp_all

text \<open>
  One step keeps \<open>single_flight\<close>, and keeps \<open>flag_on_screen\<close> unless it is a delivered
  click, provided no click has been delivered since the last commit when it is a click.
\<close>

lemma single_flight_step:
  assumes "single_flight v" and "clicked \<or> flag_on_screen v"
    and "commits_between_clicks clicked (ev # evs)"
  shows "single_flight (fst (step ev v))"
proof (cases ev)
  case (Render p)
  with assms(1) show ?thesis by (simp add: single_flight_def render_keeps_requests)
next
  case Commit
  with assms(1) show ?thesis by (simp add: single_flight_def commit_def)
next
  case ClickSummarize
  with assms(3) have "\<not> clicked" by simp
  with assms(2) have "flag_on_screen v" by simp
  with assms(1) ClickSummarize show ?thesis
    by (auto simp add: single_flight_def flag_on_screen_def summarize_clickable_def
        handleSummarize_def split: option.splits)
next
  case (Settle r)
  with assms(1) show ?thesis
    by (cases "pending v") (auto simp add: single_flight_def settle_clears)
qed (use assms(1) in simp_all)

lemma flag_on_screen_step:
  assumes "clicked \<or> flag_on_screen v" and "ev \<noteq> ClickSummarize"
  shows "(clicked \<and> ev \<noteq> Commit \<and> (\<forall>p. ev \<noteq> Render p)) \<or> flag_on_screen (fst (step ev v))"
proof (cases ev)
  case (Render p)
  then show ?thesis by (simp add: flag_on_screen_def render_keeps_requests)
next
  case Commit
  then show ?thesis by (simp add: flag_on_screen_def commit_def)
next
  case ClickSummarize
  with assms(2) show ?thesis by simp
next
  case (Settle r)
  then show ?thesis using assms(1) by (auto simp add: flag_on_screen_def settle_clears)
qed (use assms(1) in auto)

lemma single_flight_run:
  "single_flight v \<Longrightarrow> clicked \<or> flag_on_screen v \<Longrightarrow> commits_between_clicks clicked evs
   \<Longrightarrow> single_flight (run evs v)"
proof (induction evs arbitrary: v clicked)
  case Nil
  then show ?case by simp
next
  case (Cons ev evs)
  have sf: "single_flight (fst (step ev v))"
    by (rule single_flight_step [OF Cons.prems])
  show ?case
  proof (cases "ev = ClickSummarize")
    case True
    with Cons.prems(3) have "commits_between_clicks True evs" by simp
    with Cons.IH [OF sf, of True] show ?thesis by simp
  next
    case False
    from flag_on_screen_step [OF Cons.prems(2) False]
    consider (dirty) "clicked" "ev \<noteq> Commit" "\<forall>p. ev \<noteq> Render p"
      | (clean) "flag_on_screen (fst (step ev v))"
      by blast
    then show ?thesis
    proof cases
      case dirty
      with False Cons.prems(3) have "commits_between_clicks True evs"
        by (cases ev) simp_all
      with Cons.IH [OF sf, of True] show ?thesis by simp
    next
      case clean
      have "commits_between_clicks clicked evs \<or> commits_between_clicks False evs"
        using False Cons.prems(3) by (cases ev) simp_all
      then show ?thesis
      proof
        assume c: "commits_between_clicks clicked evs"
        from clean have "clicked \<or> flag_on_screen (fst (step ev v))" by simp
        from Cons.IH [OF sf this c] show ?thesis by simp
      next
        assume c: "commits_between_clicks False evs"
        from clean have "False \<or> flag_on_screen (fst (step ev v))" by simp
        from Cons.IH [OF sf this c] show ?thesis by simp
      qed
    qed
  qed
qed

lemma single_flight_initial: "single_flight initial_view \<and> flag_on_screen initial_view"
  by (simp add: single_flight_def flag_on_screen_def initial_view_def)

subsection \<open>Opening\<close>

text \<open>
  C5. Whenever a commit takes the view from not open (closed, or not yet mounted) to
  open, with whatever memo, the effect leaves the summary state empty.
\<close>

theorem opening_resets_summary:
  assumes "\<not> view_open v" and "isOpen p"
  shows "summary (render p v) = Some [] \<and> \<not> summary_shown (render p v)"
  using assms
  by (auto simp add: render_def commit_def deps_changed_def effect_body_def view_open_def
      summary_shown_def split: option.splits)

text \<open>
  A view that showed a summary of one memo and was closed is opened with another memo.
\<close>

theorem opening_resets_summary_witness:
  "summary (run [Render \<lparr>memo = Some groceries, isOpen = True, onClose = 7\<rparr>, ClickSummarize,
                 Settle (Replied True (Some ''milk and eggs'') None),
                 Render \<lparr>memo = Some groceries, isOpen = False, onClose = 7\<rparr>] initial_view)
     = Some ''milk and eggs''
   \<and> summary (render \<lparr>memo = Some untitled, isOpen = True, onClose = 7\<rparr>
        (run [Render \<lparr>memo = Some groceries, isOpen = True, onClose = 7\<rparr>, ClickSummarize,
              Settle (Replied True (Some ''milk and eggs'') None),
              Render \<lparr>memo = Some groceries, isOpen = False, onClose = 7\<rparr>] initial_view))
     = Some []"
proof -
  have r: "run [Render \<lparr>memo = Some groceries, isOpen = True, onClose = 7\<rparr>, ClickSummarize,
                Settle (Replied True (Some ''milk and eggs'') None),
                Render \<lparr>memo = Some groceries, isOpen = False, onClose = 7\<rparr>] initial_view
           = \<lparr>summary = Some ''milk and eggs'', isSummarizing = False,
              committed = Some \<lparr>memo = Some groceries, isOpen = False, onClose = 7\<rparr>,
              committed_summary = Some ''milk and eggs'', committed_isSummarizing = False,
              listeners = [], overflow = ''unset'', pending = []\<rparr>"
    by (simp add: initial_view_def render_def commit_def deps_changed_def cleanup_def
        effect_body_def summarize_clickable_def rendered_def handleSummarize_def groceries_def)
  have c: "\<not> view_open (run [Render \<lparr>memo = Some groceries, isOpen = True, onClose = 7\<rparr>,
                ClickSummarize, Settle (Replied True (Some ''milk and eggs'') None),
                Render \<lparr>memo = Some groceries, isOpen = False, onClose = 7\<rparr>] initial_view)"
    unfolding r by (simp add: view_open_def)
  have o: "isOpen \<lparr>memo = Some untitled, isOpen = True, onClose = 7\<rparr>" by simp
  show ?thesis using opening_resets_summary [OF c o] unfolding r by simp
qed

lemma run_open_groceries:
  "run [Render \<lparr>memo = Some groceries, isOpen = True, onClose = 7\<rparr>] initial_view
   = \<lparr>summary = Some [], isSummarizing = False,
      committed = Some \<lparr>memo = Some groceries, isOpen = True, onClose = 7\<rparr>,
      committed_summary = Some [], committed_isSummarizing = False,
      listeners = [7], overflow = ''hidden'', pending = []\<rparr>"
  by (simp add: initial_view_def render_def commit_def deps_changed_def cleanup_def
      effect_body_def)

subsection \<open>Closing\<close>

text \<open>
  C6. In every state an instance can reach in which the view is open: a \<open>keydown\<close> of
  Escape invokes \<open>onClose\<close>; the backdrop's click handler invokes \<open>onClose\<close> for an event
  whose target is the backdrop itself, and does not invoke it for an event whose target
  differs from the backdrop, as a click inside the modal content is when it bubbles
  up. The close, edit and delete buttons have handlers of their own and are separate
  events of the model.
\<close>

theorem escape_and_backdrop_close:
  assumes "committed (run evs initial_view) = Some p" and "isOpen p"
    and "target on_backdrop = currentTarget on_backdrop"
    and "target inside \<noteq> currentTarget inside"
  shows "step (KeyDown ''Escape'') (run evs initial_view)
           = (run evs initial_view, [OnClose (onClose p)])
         \<and> handleKeyDown (onClose p) ''Escape'' = [OnClose (onClose p)]
         \<and> handleBackdropClick p on_backdrop = [OnClose (onClose p)]
         \<and> handleBackdropClick p inside = []
         \<and> (memo p \<noteq> None \<longrightarrow>
              step ClickBackdrop (run evs initial_view)
                = (run evs initial_view, [OnClose (onClose p)])
              \<and> step ClickContent (run evs initial_view) = (run evs initial_view, []))"
proof -
  have "listeners_match (run evs initial_view)"
    by (rule listeners_match_run [OF listeners_match_initial])
  with assms(1,2)
  have "dispatch_keydown (run evs initial_view) ''Escape'' = [OnClose (onClose p)]"
    by (simp add: listeners_match_def dispatch_keydown_def handleKeyDown_def)
  with assms show ?thesis
    by (simp add: handleKeyDown_def handleBackdropClick_def rendered_def
        backdrop_def content_area_def)
qed

theorem escape_and_backdrop_close_witness:
  "step (KeyDown ''Escape'')
     (run [Render \<lparr>memo = Some groceries, isOpen = True, onClose = 7\<rparr>] initial_view)
   = (run [Render \<lparr>memo = Some groceries, isOpen = True, onClose = 7\<rparr>] initial_view,
      [OnClose 7])
   \<and> step ClickBackdrop
       (run [Render \<lparr>memo = Some groceries, isOpen = True, onClose = 7\<rparr>] initial_view)
     = (run [Render \<lparr>memo = Some groceries, isOpen = True, onClose = 7\<rparr>] initial_view,
        [OnClose 7])
   \<and> step ClickContent
       (run [Render \<lparr>memo = Some groceries, isOpen = True, onClose = 7\<rparr>] initial_view)
     = (run [Render \<lparr>memo = Some groceries, isOpen = True, onClose = 7\<rparr>] initial_view, [])
   \<and> handleBackdropClick \<lparr>memo = Some groceries, isOpen = True, onClose = 7\<rparr>
        \<lparr>target = 0, currentTarget = 0\<rparr> = [OnClose 7]
   \<and> handleBackdropClick \<lparr>memo = Some groceries, isOpen = True, onClose = 7\<rparr>
        \<lparr>target = 1, currentTarget = 0\<rparr> = []"
proof -
  have c: "committed (run [Render \<lparr>memo = Some groceries, isOpen = True, onClose = 7\<rparr>]
                        initial_view)
           = Some \<lparr>memo = Some groceries, isOpen = True, onClose = 7\<rparr>"
    unfolding run_open_groceries by simp
  have o: "isOpen \<lparr>memo = Some groceries, isOpen = True, onClose = 7\<rparr>" by simp
  have b: "target \<lparr>target = 0, currentTarget = 0\<rparr>
           = currentTarget \<lparr>target = 0, currentTarget = (0::nat)\<rparr>"
    by simp
  have i: "target \<lparr>target = 1, currentTarget = 0\<rparr>
           \<noteq> currentTarget \<lparr>target = 1, currentTarget = (0::nat)\<rparr>"
    by simp
  from escape_and_backdrop_close [OF c o b i] show ?thesis by simp
qed

subsection \<open>Deleting\<close>

text \<open>
  C7. On an open view with a memo, a click on the delete button asks for confirmation.
  If the user confirms, \<open>onDelete\<close> is invoked once, with the memo's id, and \<open>onClose\<close> is
  invoked after it. If the user cancels, neither is invoked and the view is unchanged.
\<close>

theorem delete_confirmed_or_cancelled:
  assumes "committed v = Some p" and "isOpen p" and "memo p = Some m"
  shows "step (ClickDelete True) v =
           (v, [Confirm confirm_question, OnDelete (memo_id m), OnClose (onClose p)])
         \<and> step (ClickDelete False) v = (v, [Confirm confirm_question])
         \<and> handleDelete p True
             = [Confirm confirm_question, OnDelete (memo_id m), OnClose (onClose p)]
         \<and> handleDelete p False = [Confirm confirm_question]"
  using assms by (simp add: rendered_def handleDelete_def)

theorem delete_confirmed_or_cancelled_witness:
  "handleDelete \<lparr>memo = Some groceries, isOpen = True, onClose = 7\<rparr> True
     = [Confirm confirm_question, OnDelete ''m1'', OnClose 7]
   \<and> handleDelete \<lparr>memo = Some groceries, isOpen = True, onClose = 7\<rparr> False
     = [Confirm confirm_question]
   \<and> step (ClickDelete False)
        (run [Render \<lparr>memo = Some groceries, isOpen = True, onClose = 7\<rparr>] initial_view)
      = (run [Render \<lparr>memo = Some groceries, isOpen = True, onClose = 7\<rparr>] initial_view,
         [Confirm confirm_question])"
proof -
  have c: "committed (run [Render \<lparr>memo = Some groceries, isOpen = True, onClose = 7\<rparr>]
                        initial_view)
           = Some \<lparr>memo = Some groceries, isOpen = True, onClose = 7\<rparr>"
    unfolding run_open_groceries by simp
  have o: "isOpen \<lparr>memo = Some groceries, isOpen = True, onClose = 7\<rparr>" by simp
  have m: "memo \<lparr>memo = Some groceries, isOpen = True, onClose = 7\<rparr> = Some groceries"
    by simp
  from delete_confirmed_or_cancelled [OF c o m] show ?thesis by (simp add: groceries_def)
qed

subsection \<open>Summarizing\<close>

text \<open>
  C8, as amended. In every state an instance reaches by events in which a commit comes
  between any two clicks on the summarize button, at most one summarize request is in
  flight; while one is, \<open>isSummarizing\<close> is set, and once that is committed the button
  cannot be clicked and a click on it starts nothing.
\<close>

theorem one_request_in_flight:
  assumes "commits_between_clicks False evs"
  shows "length (pending (run evs initial_view)) \<le> 1
   \<and> (pending (run evs initial_view) \<noteq> [] \<longrightarrow>
        isSummarizing (run evs initial_view)
        \<and> \<not> summarize_clickable (commit (run evs initial_view))
        \<and> step ClickSummarize (commit (run evs initial_view))
            = (commit (run evs initial_view), []))"
proof -
  have "single_flight (run evs initial_view)"
    using single_flight_initial assms by (intro single_flight_run) simp_all
  then show ?thesis
    by (auto simp add: single_flight_def summarize_clickable_def commit_def)
qed

text \<open>A click, the commit of the flag it set, and a second click: one request.\<close>

theorem one_request_in_flight_witness:
  "commits_between_clicks False
     [Render \<lparr>memo = Some groceries, isOpen = True, onClose = 7\<rparr>, ClickSummarize, Commit,
      ClickSummarize]
   \<and> pending (run [Render \<lparr>memo = Some groceries, isOpen = True, onClose = 7\<rparr>,
                    ClickSummarize, Commit, ClickSummarize] initial_view) = [''milk, eggs'']
   \<and> isSummarizing (run [Render \<lparr>memo = Some groceries, isOpen = True, onClose = 7\<rparr>,
                            ClickSummarize, Commit, ClickSummarize] initial_view)"
proof -
  have c: "commits_between_clicks False
     [Render \<lparr>memo = Some groceries, isOpen = True, onClose = 7\<rparr>, ClickSummarize, Commit,
      ClickSummarize]"
    by simp
  have p: "pending (run [Render \<lparr>memo = Some groceries, isOpen = True, onClose = 7\<rparr>,
                         ClickSummarize, Commit, ClickSummarize] initial_view)
           = [''milk, eggs'']"
    by (simp add: initial_view_def render_def commit_def deps_changed_def cleanup_def
        effect_body_def summarize_clickable_def rendered_def handleSummarize_def groceries_def)
  from one_request_in_flight [OF c] p c show ?thesis by simp
qed

text \<open>
  Two clicks with no commit between them: the button on screen is still enabled when
  the second click arrives, \<open>handleSummarize\<close> does not read the flag, and two requests
  are in flight.
\<close>

theorem two_clicks_before_commit:
  "pending (run [Render \<lparr>memo = Some groceries, isOpen = True, onClose = 7\<rparr>, ClickSummarize,
                 ClickSummarize] initial_view) = [''milk, eggs'', ''milk, eggs'']"
  by (simp add: initial_view_def render_def commit_def deps_changed_def cleanup_def
      effect_body_def summarize_clickable_def rendered_def handleSummarize_def groceries_def)

text \<open>
  The guard is the button alone: \<open>handleSummarize\<close> itself, called while a request is in
  flight, sends another.
\<close>

lemma handleSummarize_unguarded:
  "memo p = Some m \<Longrightarrow> memo_content m \<noteq> [] \<Longrightarrow>
   pending (fst (handleSummarize p v)) = pending v @ [memo_content m]"
  by (simp add: handleSummarize_def)

text \<open>
  C10. Called without a memo, or with a memo whose content is empty, \<open>handleSummarize\<close>
  issues no request and leaves the state (the summary and the flag included) as it was.
\<close>

theorem summarize_without_content_is_noop:
  assumes "memo p = None \<or> (\<exists>m. memo p = Some m \<and> memo_content m = [])"
  shows "handleSummarize p v = (v, [])"
  using assms by (auto simp add: handleSummarize_def)

theorem summarize_without_content_is_noop_witness:
  "memo_content untitled = []
   \<and> handleSummarize \<lparr>memo = Some untitled, isOpen = True, onClose = 7\<rparr> initial_view
       = (initial_view, [])
   \<and> handleSummarize \<lparr>memo = None, isOpen = True, onClose = 7\<rparr> initial_view
       = (initial_view, [])"
proof -
  have e: "memo_content untitled = []" by (simp add: untitled_def)
  have a: "memo \<lparr>memo = Some untitled, isOpen = True, onClose = 7\<rparr> = None \<or>
    (\<exists>m. memo \<lparr>memo = Some untitled, isOpen = True, onClose = 7\<rparr> = Some m
          \<and> memo_content m = [])"
    using e by simp
  have b: "memo \<lparr>memo = None, isOpen = True, onClose = 7\<rparr> = None \<or>
    (\<exists>m. memo \<lparr>memo = None, isOpen = True, onClose = 7\<rparr> = Some m \<and> memo_content m = [])"
    by simp
  from summarize_without_content_is_noop [OF a] summarize_without_content_is_noop [OF b] e
  show ?thesis by simp
qed

end
